theory Spec2Isabelle
  imports Main "HOL-Library.Signed_Division"
begin

section \<open>Instructions (include/codegen.h)\<close>

text \<open>
  The scoped enumerations of the C++ sources become datatypes. Several of them share
  member names (\<open>TokenType::EQ\<close> and \<open>OprType::EQ\<close>, \<open>TokenType::VAR\<close> and
  \<open>SymbolType::VAR\<close>), so every constructor carries a short prefix that stands for the
  scope of its enumeration: \<open>Op_\<close> for \<open>OpCode\<close>, \<open>T_\<close> for \<open>TokenType\<close>, \<open>Sym_\<close> for
  \<open>SymbolType\<close>.
\<close>

datatype OpCode =
  Op_LIT | Op_OPR | Op_LOD | Op_STO | Op_CAL | Op_INT | Op_JMP | Op_JPC | Op_RED | Op_WRT

text \<open>\<open>enum class OprType\<close>; the parser only ever uses \<open>static_cast<int>\<close> of a member.\<close>

definition Opr_RET :: int where "Opr_RET = 0"
definition Opr_NEG :: int where "Opr_NEG = 1"
definition Opr_ADD :: int where "Opr_ADD = 2"
definition Opr_SUB :: int where "Opr_SUB = 3"
definition Opr_MUL :: int where "Opr_MUL = 4"
definition Opr_DIV :: int where "Opr_DIV = 5"
definition Opr_ODD :: int where "Opr_ODD = 6"
definition Opr_EQ :: int where "Opr_EQ = 8"
definition Opr_NEQ :: int where "Opr_NEQ = 9"
definition Opr_LT :: int where "Opr_LT = 10"
definition Opr_GEQ :: int where "Opr_GEQ = 11"
definition Opr_GT :: int where "Opr_GT = 12"
definition Opr_LEQ :: int where "Opr_LEQ = 13"

lemmas OprType_defs =
  Opr_RET_def Opr_NEG_def Opr_ADD_def Opr_SUB_def Opr_MUL_def Opr_DIV_def Opr_ODD_def
  Opr_EQ_def Opr_NEQ_def Opr_LT_def Opr_GEQ_def Opr_GT_def Opr_LEQ_def

text \<open>\<open>struct Instruction { OpCode op; int level; int address; }\<close>\<close>

datatype Instruction = Instruction (op: OpCode) (level: int) (address: int)

section \<open>The virtual machine (interpreter.h, src/interpreter.cpp)\<close>

definition STACK_SIZE :: int where "STACK_SIZE = 10000"
definition RA_OFFSET :: int where "RA_OFFSET = 0"
definition DL_OFFSET :: int where "DL_OFFSET = 1"
definition SL_OFFSET :: int where "SL_OFFSET = 2"

text \<open>
  The machine's registers and stack slots are C++ \<open>int\<close>s, modelled as mathematical
  integers. What C++ leaves undefined is a value of the model, never an unspecified HOL
  term: an access \<open>stack[i]\<close> outside the vector is \<open>OutOfBounds\<close>, an arithmetic result
  outside the 32-bit range is \<open>SignedOverflow\<close>. Where an index computation such as
  \<open>T + 1\<close> or \<open>base + address\<close> would itself overflow, the mathematical index lies outside
  the vector as well, so the step is reported as \<open>OutOfBounds\<close>.
\<close>

datatype vm_fault = OutOfBounds | SignedOverflow

definition in_int :: "int \<Rightarrow> bool" where
  "in_int v \<longleftrightarrow> - 2147483648 \<le> v \<and> v \<le> 2147483647"

definition ck_int :: "int \<Rightarrow> vm_fault + int" where
  "ck_int v = (if in_int v then Inr v else Inl SignedOverflow)"

text \<open>\<open>stack[i]\<close> as an rvalue and as the target of an assignment.\<close>

definition stack_rd :: "int list \<Rightarrow> int \<Rightarrow> vm_fault + int" where
  "stack_rd st i = (if 0 \<le> i \<and> i < int (length st) then Inr (st ! nat i) else Inl OutOfBounds)"

definition stack_wr :: "int list \<Rightarrow> int \<Rightarrow> int \<Rightarrow> vm_fault + int list" where
  "stack_wr st i v =
     (if 0 \<le> i \<and> i < int (length st) then Inr (st[nat i := v]) else Inl OutOfBounds)"

text \<open>
  What the machine sends to \<open>std::cout\<close> and \<open>std::cerr\<close>. \<open>WriteLine v\<close> is the decimal
  rendering of \<open>v\<close> followed by a newline (\<open>executeWRT\<close>), \<open>Prompt\<close> the two characters
  \<open>"? "\<close> of \<open>executeRED\<close>; \<open>Banner\<close> and \<open>Summary n\<close> are the fixed header and the
  trailer with the step count that \<open>run\<close> prints.
\<close>

datatype out_event = Banner | Prompt | WriteLine int | Summary int

datatype runtime_error = DivisionByZero | StackOverflow | UnknownOPR int

text \<open>
  \<open>class Interpreter\<close>. The registers \<open>I\<close>, \<open>P\<close>, \<open>T\<close>, \<open>B\<close> are the fields \<open>reg_I\<close>, \<open>reg_P\<close>,
  \<open>reg_T\<close>, \<open>reg_B\<close>. \<open>cin\<close> is the sequence of integers still to be read from standard
  input, \<open>cout\<close> and \<open>cerr\<close> what has been printed so far. The model is of a machine built
  with \<open>debug = false\<close> (the constructor's default): the branches under \<open>if (debug)\<close> only
  print a trace. \<open>stepCount\<close> only counts and is never read by the machine.
\<close>

record Interpreter =
  code :: "Instruction list"
  stack :: "int list"
  reg_I :: Instruction
  reg_P :: int
  reg_T :: int
  reg_B :: int
  stepCount :: int
  running :: bool
  cin :: "int list"
  cout :: "out_event list"
  cerr :: "runtime_error list"

text \<open>\<open>Interpreter::base\<close>: follow the static link \<open>level\<close> times, starting from \<open>b\<close>.\<close>

function base :: "int list \<Rightarrow> int \<Rightarrow> int \<Rightarrow> vm_fault + int" where
  "base st b lev =
     (if lev > 0 then
        (case stack_rd st (b + SL_OFFSET) of
           Inl f \<Rightarrow> Inl f
         | Inr b' \<Rightarrow> base st b' (lev - 1))
      else Inr b)"
  by pat_completeness auto
termination
  by (relation "measure (\<lambda>(st, b, lev). nat lev)") auto

declare base.simps [simp del]

definition executeLIT :: "Interpreter \<Rightarrow> vm_fault + Interpreter" where
  "executeLIT s =
     (case stack_wr (stack s) (reg_T s + 1) (address (reg_I s)) of
        Inl f \<Rightarrow> Inl f
      | Inr st \<Rightarrow> Inr (s\<lparr>reg_T := reg_T s + 1, stack := st\<rparr>))"

text \<open>
  The binary operators of \<open>executeOPR\<close> all have the shape
  \<open>T--; stack[T] = stack[T] op stack[T + 1]\<close>. \<open>binop\<close> is that shape for an operator whose
  result may be undefined.
\<close>

definition binop :: "(int \<Rightarrow> int \<Rightarrow> vm_fault + int) \<Rightarrow> Interpreter \<Rightarrow> vm_fault + Interpreter" where
  "binop f s =
     (let t = reg_T s - 1 in
      case stack_rd (stack s) t of
        Inl e \<Rightarrow> Inl e
      | Inr a \<Rightarrow>
          (case stack_rd (stack s) (t + 1) of
             Inl e \<Rightarrow> Inl e
           | Inr b \<Rightarrow>
               (case f a b of
                  Inl e \<Rightarrow> Inl e
                | Inr r \<Rightarrow>
                    (case stack_wr (stack s) t r of
                       Inl e \<Rightarrow> Inl e
                     | Inr st \<Rightarrow> Inr (s\<lparr>reg_T := t, stack := st\<rparr>)))))"

definition bool_int :: "bool \<Rightarrow> int" where
  "bool_int c = (if c then 1 else 0)"

definition executeOPR :: "Interpreter \<Rightarrow> vm_fault + Interpreter" where
  "executeOPR s =
     (let a = address (reg_I s) in
      if a = 0 then
        (case stack_rd (stack s) (reg_B s + RA_OFFSET) of
           Inl e \<Rightarrow> Inl e
         | Inr ra \<Rightarrow>
             (case stack_rd (stack s) (reg_B s + DL_OFFSET) of
                Inl e \<Rightarrow> Inl e
              | Inr dl \<Rightarrow> Inr (s\<lparr>reg_T := reg_B s - 1, reg_P := ra, reg_B := dl\<rparr>)))
      else if a = 1 then
        (case stack_rd (stack s) (reg_T s) of
           Inl e \<Rightarrow> Inl e
         | Inr v \<Rightarrow>
             (case ck_int (- v) of
                Inl e \<Rightarrow> Inl e
              | Inr r \<Rightarrow>
                  (case stack_wr (stack s) (reg_T s) r of
                     Inl e \<Rightarrow> Inl e
                   | Inr st \<Rightarrow> Inr (s\<lparr>stack := st\<rparr>))))
      else if a = 2 then binop (\<lambda>x y. ck_int (x + y)) s
      else if a = 3 then binop (\<lambda>x y. ck_int (x - y)) s
      else if a = 4 then binop (\<lambda>x y. ck_int (x * y)) s
      else if a = 5 then
        (let t = reg_T s - 1 in
         case stack_rd (stack s) (t + 1) of
           Inl e \<Rightarrow> Inl e
         | Inr d \<Rightarrow>
             if d \<noteq> 0 then binop (\<lambda>x y. ck_int (x sdiv y)) s
             else Inr (s\<lparr>reg_T := t, cerr := cerr s @ [DivisionByZero], running := False\<rparr>))
      else if a = 6 then
        (case stack_rd (stack s) (reg_T s) of
           Inl e \<Rightarrow> Inl e
         | Inr v \<Rightarrow>
             (case stack_wr (stack s) (reg_T s) (if v smod 2 = 1 then 1 else 0) of
                Inl e \<Rightarrow> Inl e
              | Inr st \<Rightarrow> Inr (s\<lparr>stack := st\<rparr>)))
      else if a = 8 then binop (\<lambda>x y. Inr (bool_int (x = y))) s
      else if a = 9 then binop (\<lambda>x y. Inr (bool_int (x \<noteq> y))) s
      else if a = 10 then binop (\<lambda>x y. Inr (bool_int (x < y))) s
      else if a = 11 then binop (\<lambda>x y. Inr (bool_int (x \<ge> y))) s
      else if a = 12 then binop (\<lambda>x y. Inr (bool_int (x > y))) s
      else if a = 13 then binop (\<lambda>x y. Inr (bool_int (x \<le> y))) s
      else Inr (s\<lparr>cerr := cerr s @ [UnknownOPR a], running := False\<rparr>))"

definition executeLOD :: "Interpreter \<Rightarrow> vm_fault + Interpreter" where
  "executeLOD s =
     (case base (stack s) (reg_B s) (level (reg_I s)) of
        Inl e \<Rightarrow> Inl e
      | Inr baseAddr \<Rightarrow>
          (case stack_rd (stack s) (baseAddr + address (reg_I s)) of
             Inl e \<Rightarrow> Inl e
           | Inr v \<Rightarrow>
               (case stack_wr (stack s) (reg_T s + 1) v of
                  Inl e \<Rightarrow> Inl e
                | Inr st \<Rightarrow> Inr (s\<lparr>reg_T := reg_T s + 1, stack := st\<rparr>))))"

definition executeSTO :: "Interpreter \<Rightarrow> vm_fault + Interpreter" where
  "executeSTO s =
     (case base (stack s) (reg_B s) (level (reg_I s)) of
        Inl e \<Rightarrow> Inl e
      | Inr baseAddr \<Rightarrow>
          (case stack_rd (stack s) (reg_T s) of
             Inl e \<Rightarrow> Inl e
           | Inr v \<Rightarrow>
               (case stack_wr (stack s) (baseAddr + address (reg_I s)) v of
                  Inl e \<Rightarrow> Inl e
                | Inr st \<Rightarrow> Inr (s\<lparr>stack := st, reg_T := reg_T s - 1\<rparr>))))"

text \<open>
  \<open>executeCAL\<close> writes the three header words at \<open>T + 1\<close>, \<open>T + 2\<close>, \<open>T + 3\<close> in this
  order, with no test against the capacity of the stack; \<open>base\<close> runs on the stack that
  already holds the first two.
\<close>

definition executeCAL :: "Interpreter \<Rightarrow> vm_fault + Interpreter" where
  "executeCAL s =
     (case stack_wr (stack s) (reg_T s + 1) (reg_P s) of
        Inl e \<Rightarrow> Inl e
      | Inr st1 \<Rightarrow>
          (case stack_wr st1 (reg_T s + 2) (reg_B s) of
             Inl e \<Rightarrow> Inl e
           | Inr st2 \<Rightarrow>
               (case base st2 (reg_B s) (level (reg_I s)) of
                  Inl e \<Rightarrow> Inl e
                | Inr sl \<Rightarrow>
                    (case stack_wr st2 (reg_T s + 3) sl of
                       Inl e \<Rightarrow> Inl e
                     | Inr st3 \<Rightarrow>
                         Inr (s\<lparr>stack := st3, reg_B := reg_T s + 1,
                                reg_P := address (reg_I s)\<rparr>)))))"

definition executeINT :: "Interpreter \<Rightarrow> vm_fault + Interpreter" where
  "executeINT s =
     (case ck_int (reg_T s + address (reg_I s)) of
        Inl e \<Rightarrow> Inl e
      | Inr t \<Rightarrow>
          if t \<ge> STACK_SIZE
          then Inr (s\<lparr>reg_T := t, cerr := cerr s @ [StackOverflow], running := False\<rparr>)
          else Inr (s\<lparr>reg_T := t\<rparr>))"

definition executeJMP :: "Interpreter \<Rightarrow> vm_fault + Interpreter" where
  "executeJMP s = Inr (s\<lparr>reg_P := address (reg_I s)\<rparr>)"

definition executeJPC :: "Interpreter \<Rightarrow> vm_fault + Interpreter" where
  "executeJPC s =
     (case stack_rd (stack s) (reg_T s) of
        Inl e \<Rightarrow> Inl e
      | Inr v \<Rightarrow>
          if v = 0 then Inr (s\<lparr>reg_P := address (reg_I s), reg_T := reg_T s - 1\<rparr>)
          else Inr (s\<lparr>reg_T := reg_T s - 1\<rparr>))"

text \<open>
  \<open>executeRED\<close>: \<open>std::cin >> stack[baseAddr + I.address]\<close>. The next value of the input
  sequence is stored; once the sequence is exhausted the extraction fails at end of file
  and leaves the slot as it was.
\<close>

definition executeRED :: "Interpreter \<Rightarrow> vm_fault + Interpreter" where
  "executeRED s =
     (case base (stack s) (reg_B s) (level (reg_I s)) of
        Inl e \<Rightarrow> Inl e
      | Inr baseAddr \<Rightarrow>
          (case stack_rd (stack s) (baseAddr + address (reg_I s)) of
             Inl e \<Rightarrow> Inl e
           | Inr old \<Rightarrow>
               (case cin s of
                  [] \<Rightarrow> Inr (s\<lparr>cout := cout s @ [Prompt]\<rparr>)
                | v # rest \<Rightarrow>
                    (case stack_wr (stack s) (baseAddr + address (reg_I s)) v of
                       Inl e \<Rightarrow> Inl e
                     | Inr st \<Rightarrow>
                         Inr (s\<lparr>stack := st, cin := rest, cout := cout s @ [Prompt]\<rparr>)))))"

definition executeWRT :: "Interpreter \<Rightarrow> vm_fault + Interpreter" where
  "executeWRT s =
     (case stack_rd (stack s) (reg_T s) of
        Inl e \<Rightarrow> Inl e
      | Inr v \<Rightarrow> Inr (s\<lparr>cout := cout s @ [WriteLine v], reg_T := reg_T s - 1\<rparr>))"

text \<open>
  \<open>Interpreter::step\<close>. \<open>static_cast<size_t>(P) >= code.size()\<close> holds for a negative
  \<open>P\<close> too. The \<open>default\<close> branch of the dispatch is unreachable for the ten members of
  \<open>OpCode\<close>.
\<close>

definition pc_in_code :: "Interpreter \<Rightarrow> bool" where
  "pc_in_code s \<longleftrightarrow> 0 \<le> reg_P s \<and> reg_P s < int (length (code s))"

definition step :: "Interpreter \<Rightarrow> vm_fault + Interpreter" where
  "step s =
     (if \<not> pc_in_code s then Inr (s\<lparr>running := False\<rparr>)
      else
        let s1 = s\<lparr>reg_I := code s ! nat (reg_P s), reg_P := reg_P s + 1,
                   stepCount := stepCount s + 1\<rparr>
        in case op (reg_I s1) of
             Op_LIT \<Rightarrow> executeLIT s1
           | Op_OPR \<Rightarrow> executeOPR s1
           | Op_LOD \<Rightarrow> executeLOD s1
           | Op_STO \<Rightarrow> executeSTO s1
           | Op_CAL \<Rightarrow> executeCAL s1
           | Op_INT \<Rightarrow> executeINT s1
           | Op_JMP \<Rightarrow> executeJMP s1
           | Op_JPC \<Rightarrow> executeJPC s1
           | Op_RED \<Rightarrow> executeRED s1
           | Op_WRT \<Rightarrow> executeWRT s1)"

text \<open>
  The loop of \<open>Interpreter::run\<close>:
  \<^verbatim>\<open>while (running && static_cast<size_t>(P) < code.size()) {
      step();
      if (I.op == OpCode::OPR && I.address == 0 && T < 0) running = false;
  }\<close>
  The loop need not end, so the model counts iterations down from a bound; \<open>None\<close> says
  that the bound was reached with the loop still running.
\<close>

definition ret_with_empty_stack :: "Interpreter \<Rightarrow> bool" where
  "ret_with_empty_stack s \<longleftrightarrow> op (reg_I s) = Op_OPR \<and> address (reg_I s) = 0 \<and> reg_T s < 0"

definition termination_test :: "Interpreter \<Rightarrow> Interpreter" where
  "termination_test s = (if ret_with_empty_stack s then s\<lparr>running := False\<rparr> else s)"

fun run_loop :: "nat \<Rightarrow> Interpreter \<Rightarrow> (vm_fault + Interpreter) option" where
  "run_loop 0 s = (if running s \<and> pc_in_code s then None else Some (Inr s))"
| "run_loop (Suc n) s =
     (if running s \<and> pc_in_code s then
        (case step s of
           Inl e \<Rightarrow> Some (Inl e)
         | Inr s' \<Rightarrow> run_loop n (termination_test s'))
      else Some (Inr s))"

text \<open>
  The constructor (\<open>stack.resize(STACK_SIZE, 0)\<close>), \<open>loadCode\<close> and \<open>run\<close>. \<open>execute\<close> is
  what the driver does with a compiled program: construct, load, run.
\<close>

definition zero_stack :: "int list" where
  "zero_stack = replicate (nat STACK_SIZE) 0"

definition Interpreter_new :: "int list \<Rightarrow> Interpreter" where
  "Interpreter_new input =
     \<lparr>code = [], stack = zero_stack, reg_I = Instruction Op_LIT 0 0,
      reg_P = 0, reg_T = - 1, reg_B = 0, stepCount = 0, running = False,
      cin = input, cout = [], cerr = []\<rparr>"

definition loadCode :: "Instruction list \<Rightarrow> Interpreter \<Rightarrow> Interpreter" where
  "loadCode program s =
     s\<lparr>code := program, reg_P := 0, reg_T := - 1, reg_B := 0, stepCount := 0, running := False\<rparr>"

definition run :: "nat \<Rightarrow> Interpreter \<Rightarrow> (vm_fault + Interpreter) option" where
  "run n s =
     (case run_loop n (s\<lparr>cout := cout s @ [Banner], running := True, reg_P := 0,
                          reg_T := - 1, reg_B := 0, stepCount := 0\<rparr>) of
        None \<Rightarrow> None
      | Some (Inl e) \<Rightarrow> Some (Inl e)
      | Some (Inr s') \<Rightarrow> Some (Inr (s'\<lparr>cout := cout s' @ [Summary (stepCount s')]\<rparr>)))"

definition execute :: "nat \<Rightarrow> Instruction list \<Rightarrow> int list \<Rightarrow> (vm_fault + Interpreter) option" where
  "execute n program input = run n (loadCode program (Interpreter_new input))"

section \<open>Rendering a diagnostic (src/diagnostics.cpp, \<open>DiagnosticEngine::report\<close>)\<close>

text \<open>
  \<open>report\<close> prints the source line and, under it, the caret line. Both start with a gutter
  of the same width; what follows the gutter is modelled here. A \<open>string\<close> is the byte
  sequence of the \<open>std::string\<close>, and a column is a 1-based byte position, as the lexer
  counts it.
  \<^verbatim>\<open>for (char c : sourceLine) { if (c == '\t') out << "    "; else out << c; }\<close>
\<close>

definition TAB :: char where "TAB = CHR 0x09"

fun renderSourceLine :: "string \<Rightarrow> string" where
  "renderSourceLine [] = []"
| "renderSourceLine (c # cs) =
     (if c = TAB then ''    '' @ renderSourceLine cs else c # renderSourceLine cs)"

text \<open>
  \<^verbatim>\<open>int visualColumn = 0;
  for (int i = 0; i < column - 1 && i < (int)sourceLine.size(); i++)
      if (sourceLine[i] == '\t') visualColumn += 4; else visualColumn++;\<close>
  \<open>visualColumn_loop rest column i v\<close> is the loop at index \<open>i\<close> with \<open>rest\<close> the bytes of
  the line from \<open>i\<close> on.
\<close>

fun visualColumn_loop :: "string \<Rightarrow> int \<Rightarrow> int \<Rightarrow> int \<Rightarrow> int" where
  "visualColumn_loop [] column i v = v"
| "visualColumn_loop (c # cs) column i v =
     (if i < column - 1
      then visualColumn_loop cs column (i + 1) (if c = TAB then v + 4 else v + 1)
      else v)"

definition visualColumn :: "string \<Rightarrow> int \<Rightarrow> int" where
  "visualColumn sourceLine column = visualColumn_loop sourceLine column 0 0"

text \<open>
  The caret line: \<open>visualColumn\<close> spaces, the caret, and a tilde for each further byte of
  the token (the colour escapes around the caret print nothing visible).
\<close>

definition caretLine :: "string \<Rightarrow> int \<Rightarrow> int \<Rightarrow> string" where
  "caretLine sourceLine column len =
     replicate (nat (visualColumn sourceLine column)) CHR '' '' @ CHR ''^'' #
     replicate (nat (len - 1)) CHR ''~''"

section \<open>Tokens (lexer.h)\<close>

datatype TokenType =
    T_PROGRAM | T_CONST | T_VAR | T_PROCEDURE | T_BEGIN | T_END
  | T_IF | T_THEN | T_ELSE | T_WHILE | T_DO | T_CALL | T_READ | T_WRITE | T_ODD
  | T_IDENTIFIER | T_INTEGER
  | T_PLUS | T_MINUS | T_MULTIPLY | T_DIVIDE
  | T_ASSIGN
  | T_EQ | T_NEQ | T_LT | T_LEQ | T_GT | T_GEQ
  | T_LPAREN | T_RPAREN | T_COMMA | T_SEMICOLON
  | T_END_OF_FILE
  | T_ERROR

text \<open>\<open>struct Token { TokenType type; std::string value; int line; int column; int length; }\<close>\<close>

datatype Token =
  Token (ttype: TokenType) (tvalue: string) (tline: int) (tcolumn: int) (tlength: int)

section \<open>Symbol table and code generator (include/codegen.h, src/codegen.cpp)\<close>

datatype SymbolType = Sym_CONST | Sym_VAR | Sym_PROCEDURE

text \<open>\<open>struct Symbol { std::string name; SymbolType type; int level; int address; }\<close>\<close>

datatype Symbol =
  Symbol (sym_name: string) (sym_type: SymbolType) (sym_level: int) (sym_address: int)

record SymbolTable =
  scopes :: "Symbol list list"
  currentLevel :: int
  addressStack :: "int list"

text \<open>
  The guard \<open>currentLevel >= 0 && static_cast<size_t>(currentLevel) < v.size()\<close> that the
  member functions put before \<open>v[currentLevel]\<close>.
\<close>

definition level_in :: "SymbolTable \<Rightarrow> 'a list \<Rightarrow> bool" where
  "level_in st v \<longleftrightarrow> currentLevel st \<ge> 0 \<and> nat (currentLevel st) < length v"

definition enterScope :: "SymbolTable \<Rightarrow> SymbolTable" where
  "enterScope st =
     st\<lparr>currentLevel := currentLevel st + 1, scopes := scopes st @ [[]],
         addressStack := addressStack st @ [3]\<rparr>"

definition SymbolTable_new :: SymbolTable where
  "SymbolTable_new = enterScope \<lparr>scopes = [], currentLevel = - 1, addressStack = []\<rparr>"

definition exitScope :: "SymbolTable \<Rightarrow> SymbolTable" where
  "exitScope st =
     (if currentLevel st \<ge> 0
      then st\<lparr>scopes := butlast (scopes st), addressStack := butlast (addressStack st),
              currentLevel := currentLevel st - 1\<rparr>
      else st)"

text \<open>\<open>getNextAddress\<close>: \<open>return addressStack[currentLevel]++\<close>, or 0 outside the guard.\<close>

definition getNextAddress :: "SymbolTable \<Rightarrow> int \<times> SymbolTable" where
  "getNextAddress st =
     (if level_in st (addressStack st)
      then (addressStack st ! nat (currentLevel st),
            st\<lparr>addressStack := (addressStack st)
                   [nat (currentLevel st) := addressStack st ! nat (currentLevel st) + 1]\<rparr>)
      else (0, st))"

definition getCurrentAddress :: "SymbolTable \<Rightarrow> int" where
  "getCurrentAddress st =
     (if level_in st (addressStack st) then addressStack st ! nat (currentLevel st) else 0)"

definition addSymbol :: "string \<Rightarrow> SymbolType \<Rightarrow> int \<Rightarrow> SymbolTable \<Rightarrow> SymbolTable" where
  "addSymbol name type val st =
     (if level_in st (scopes st) then
        let (addr, st1) = (if type = Sym_VAR then getNextAddress st else (val, st))
        in st1\<lparr>scopes := (scopes st1)
                 [nat (currentLevel st1) :=
                    scopes st1 ! nat (currentLevel st1) @ [Symbol name type (currentLevel st1) addr]]\<rparr>
      else st)"

text \<open>
  \<open>lookup\<close> walks the scopes from \<open>currentLevel\<close> down to 0 and returns the first symbol
  with the name; \<open>lookupCurrent\<close> searches the innermost scope only. The C++ returns a
  pointer into the table, the model the symbol it points to: between a lookup and the last
  use of its result the parser never changes the table. \<open>lookup\<close> indexes \<open>scopes[i]\<close>
  without a guard; the object keeps \<open>scopes.size() = currentLevel + 1\<close> (lemma
  \<open>parser_ok\<close> below states it for every table the parser holds).
\<close>

fun lookup_from :: "Symbol list list \<Rightarrow> string \<Rightarrow> nat \<Rightarrow> Symbol option" where
  "lookup_from scs name 0 = find (\<lambda>sy. sym_name sy = name) (scs ! 0)"
| "lookup_from scs name (Suc i) =
     (case find (\<lambda>sy. sym_name sy = name) (scs ! Suc i) of
        Some sy \<Rightarrow> Some sy
      | None \<Rightarrow> lookup_from scs name i)"

definition lookup :: "SymbolTable \<Rightarrow> string \<Rightarrow> Symbol option" where
  "lookup st name =
     (if currentLevel st \<ge> 0 then lookup_from (scopes st) name (nat (currentLevel st)) else None)"

definition lookupCurrent :: "SymbolTable \<Rightarrow> string \<Rightarrow> Symbol option" where
  "lookupCurrent st name =
     (if level_in st (scopes st)
      then find (\<lambda>sy. sym_name sy = name) (scopes st ! nat (currentLevel st))
      else None)"

record CodeGenerator =
  cg_code :: "Instruction list"
  nextCodeAddress :: int

definition CodeGenerator_new :: CodeGenerator where
  "CodeGenerator_new = \<lparr>cg_code = [], nextCodeAddress = 0\<rparr>"

text \<open>\<open>emit\<close>: \<open>code.push_back(...); return nextCodeAddress++\<close>.\<close>

definition emit :: "OpCode \<Rightarrow> int \<Rightarrow> int \<Rightarrow> CodeGenerator \<Rightarrow> int \<times> CodeGenerator" where
  "emit opc l a cg =
     (nextCodeAddress cg,
      cg\<lparr>cg_code := cg_code cg @ [Instruction opc l a], nextCodeAddress := nextCodeAddress cg + 1\<rparr>)"

definition backpatch :: "int \<Rightarrow> int \<Rightarrow> CodeGenerator \<Rightarrow> CodeGenerator" where
  "backpatch codeIndex a cg =
     (if codeIndex \<ge> 0 \<and> nat codeIndex < length (cg_code cg)
      then cg\<lparr>cg_code := (cg_code cg)
                [nat codeIndex :=
                   Instruction (op (cg_code cg ! nat codeIndex))
                     (level (cg_code cg ! nat codeIndex)) a]\<rparr>
      else cg)"

section \<open>The parser (parser_codegen.h, src/parser_codegen.cpp)\<close>

text \<open>
  What can end a call of the parser other than a return: the two exceptions of
  \<open>std::stoi\<close>, and the two places where the C++ is undefined (\<open>tokens.back()\<close> on an
  empty token vector, \<open>-value\<close> for the least \<open>int\<close>).
\<close>

datatype parse_abort =
  stoi_out_of_range | stoi_invalid_argument | EmptyTokenVector | NegationOverflow

text \<open>
  The parser's loops and its recursion need not end on every token vector (on one that
  does not end with the end-of-file token \<open>synchronize\<close> can spin for ever), so every
  parsing function takes a bound on the depth of calls and loop iterations still allowed.
  \<open>Unfinished\<close> says the bound was used up.
\<close>

datatype 'a outcome = Returns 'a | Throws parse_abort | Unfinished

definition andThen :: "'a outcome \<Rightarrow> ('a \<Rightarrow> 'b outcome) \<Rightarrow> 'b outcome" where
  "andThen m f = (case m of Returns x \<Rightarrow> f x | Throws e \<Rightarrow> Throws e | Unfinished \<Rightarrow> Unfinished)"

text \<open>
  \<open>std::stoi(str)\<close>: skip leading white space, read an optional sign and the longest run
  of decimal digits; \<open>std::invalid_argument\<close> when there is no digit,
  \<open>std::out_of_range\<close> when the value is not an \<open>int\<close>.
\<close>

definition isspace :: "char \<Rightarrow> bool" where
  "isspace c \<longleftrightarrow> c \<in> set [CHR '' '', CHR 0x09, CHR 0x0A, CHR 0x0B, CHR 0x0C, CHR 0x0D]"

definition isdigit :: "char \<Rightarrow> bool" where
  "isdigit c \<longleftrightarrow> 48 \<le> (of_char c :: nat) \<and> (of_char c :: nat) \<le> 57"

fun decimal :: "int \<Rightarrow> string \<Rightarrow> int" where
  "decimal acc [] = acc"
| "decimal acc (c # cs) = decimal (10 * acc + (int (of_char c) - 48)) cs"

definition stoi :: "string \<Rightarrow> parse_abort + int" where
  "stoi str =
     (let s1 = dropWhile isspace str;
          negative = (s1 \<noteq> [] \<and> hd s1 = CHR ''-'');
          s2 = (if s1 \<noteq> [] \<and> (hd s1 = CHR ''-'' \<or> hd s1 = CHR ''+'') then tl s1 else s1);
          ds = takeWhile isdigit s2;
          v = (if negative then - decimal 0 ds else decimal 0 ds)
      in if ds = [] then Inl stoi_invalid_argument
         else if in_int v then Inr v
         else Inl stoi_out_of_range)"

text \<open>
  \<open>class ParserWithCodegen\<close>. Diagnostics go to the diagnostic engine and are not part of
  the parser's state; every function that reports one sets \<open>hasErrorFlag\<close>, and that is
  what the model keeps of it (\<open>reportError\<close> stands for all the \<open>report...\<close> members).
\<close>

record ParserWithCodegen =
  tokens :: "Token list"
  position :: nat
  symbolTable :: SymbolTable
  codeGen :: CodeGenerator
  hasErrorFlag :: bool

definition ParserWithCodegen_new :: "Token list \<Rightarrow> ParserWithCodegen" where
  "ParserWithCodegen_new tokenList =
     \<lparr>tokens = tokenList, position = 0, symbolTable = SymbolTable_new,
      codeGen = CodeGenerator_new, hasErrorFlag = False\<rparr>"

definition currentToken :: "ParserWithCodegen \<Rightarrow> Token" where
  "currentToken s =
     (if position s \<ge> length (tokens s) then last (tokens s) else tokens s ! position s)"

text \<open>\<open>if (position < tokens.size() - 1) position++\<close>, on a token vector that is not empty.\<close>

definition advance :: "ParserWithCodegen \<Rightarrow> ParserWithCodegen" where
  "advance s = (if position s < length (tokens s) - 1 then s\<lparr>position := position s + 1\<rparr> else s)"

definition check :: "TokenType \<Rightarrow> ParserWithCodegen \<Rightarrow> bool" where
  "check ty s \<longleftrightarrow> ttype (currentToken s) = ty"

definition reportError :: "ParserWithCodegen \<Rightarrow> ParserWithCodegen" where
  "reportError s = s\<lparr>hasErrorFlag := True\<rparr>"

text \<open>The calls \<open>codeGen.emit(...)\<close>, \<open>codeGen.backpatch(...)\<close>, \<open>symbolTable.addSymbol(...)\<close>.\<close>

definition emitP :: "OpCode \<Rightarrow> int \<Rightarrow> int \<Rightarrow> ParserWithCodegen \<Rightarrow> ParserWithCodegen" where
  "emitP opc l a s = s\<lparr>codeGen := snd (emit opc l a (codeGen s))\<rparr>"

definition backpatchP :: "int \<Rightarrow> int \<Rightarrow> ParserWithCodegen \<Rightarrow> ParserWithCodegen" where
  "backpatchP codeIndex a s = s\<lparr>codeGen := backpatch codeIndex a (codeGen s)\<rparr>"

definition nextAddr :: "ParserWithCodegen \<Rightarrow> int" where
  "nextAddr s = nextCodeAddress (codeGen s)"

definition addSymbolP :: "string \<Rightarrow> SymbolType \<Rightarrow> int \<Rightarrow> ParserWithCodegen \<Rightarrow> ParserWithCodegen" where
  "addSymbolP name type val s = s\<lparr>symbolTable := addSymbol name type val (symbolTable s)\<rparr>"

definition levelDiff :: "ParserWithCodegen \<Rightarrow> Symbol \<Rightarrow> int" where
  "levelDiff s sy = currentLevel (symbolTable s) - sym_level sy"

fun synchronize :: "nat \<Rightarrow> ParserWithCodegen \<Rightarrow> ParserWithCodegen outcome" where
  "synchronize 0 s = Unfinished"
| "synchronize (Suc n) s =
     (if ttype (currentToken s) \<noteq> T_END_OF_FILE then
        if ttype (currentToken s) = T_SEMICOLON then Returns (advance s)
        else if ttype (currentToken s) = T_BEGIN \<or> ttype (currentToken s) = T_END then Returns s
        else if ttype (currentToken s) = T_CONST \<or> ttype (currentToken s) = T_VAR \<or>
                ttype (currentToken s) = T_PROCEDURE then Returns s
        else synchronize n (advance s)
      else Returns s)"

definition expect :: "nat \<Rightarrow> TokenType \<Rightarrow> ParserWithCodegen \<Rightarrow> ParserWithCodegen outcome" where
  "expect n ty s = (if check ty s then Returns (advance s) else synchronize n (reportError s))"

definition expectSemicolon :: "nat \<Rightarrow> ParserWithCodegen \<Rightarrow> ParserWithCodegen outcome" where
  "expectSemicolon n s =
     (if check T_SEMICOLON s then Returns (advance s) else synchronize n (reportError s))"

subsection \<open>Expressions\<close>

fun parseFactor :: "nat \<Rightarrow> ParserWithCodegen \<Rightarrow> ParserWithCodegen outcome"
  and parseTerm :: "nat \<Rightarrow> ParserWithCodegen \<Rightarrow> ParserWithCodegen outcome"
  and parseTerm_loop :: "nat \<Rightarrow> ParserWithCodegen \<Rightarrow> ParserWithCodegen outcome"
  and parseExp :: "nat \<Rightarrow> ParserWithCodegen \<Rightarrow> ParserWithCodegen outcome"
  and parseExp_loop :: "nat \<Rightarrow> ParserWithCodegen \<Rightarrow> ParserWithCodegen outcome"
where
  "parseFactor 0 s = Unfinished"
| "parseFactor (Suc n) s =
     (if check T_IDENTIFIER s then
        (case lookup (symbolTable s) (tvalue (currentToken s)) of
           None \<Rightarrow> Returns (advance (reportError s))
         | Some sy \<Rightarrow>
             if sym_type sy = Sym_CONST
             then Returns (advance (emitP Op_LIT 0 (sym_address sy) s))
             else if sym_type sy = Sym_VAR
             then Returns (advance (emitP Op_LOD (levelDiff s sy) (sym_address sy) s))
             else Returns (advance (reportError s)))
      else if check T_INTEGER s then
        (case stoi (tvalue (currentToken s)) of
           Inl e \<Rightarrow> Throws e
         | Inr v \<Rightarrow> Returns (advance (emitP Op_LIT 0 v s)))
      else if check T_LPAREN s then
        andThen (parseExp n (advance s)) (expect n T_RPAREN)
      else Returns (reportError s))"
| "parseTerm 0 s = Unfinished"
| "parseTerm (Suc n) s = andThen (parseFactor n s) (parseTerm_loop n)"
| "parseTerm_loop 0 s = Unfinished"
| "parseTerm_loop (Suc n) s =
     (if check T_MULTIPLY s \<or> check T_DIVIDE s then
        andThen (parseFactor n (advance s))
          (\<lambda>s1. parseTerm_loop n
                  (emitP Op_OPR 0 (if ttype (currentToken s) = T_MULTIPLY then Opr_MUL else Opr_DIV) s1))
      else Returns s)"
| "parseExp 0 s = Unfinished"
| "parseExp (Suc n) s =
     (let negative = (\<not> check T_PLUS s \<and> check T_MINUS s);
          s1 = (if check T_PLUS s \<or> check T_MINUS s then advance s else s)
      in andThen (parseTerm n s1)
           (\<lambda>s2. parseExp_loop n (if negative then emitP Op_OPR 0 Opr_NEG s2 else s2)))"
| "parseExp_loop 0 s = Unfinished"
| "parseExp_loop (Suc n) s =
     (if check T_PLUS s \<or> check T_MINUS s then
        andThen (parseTerm n (advance s))
          (\<lambda>s1. parseExp_loop n
                  (emitP Op_OPR 0 (if ttype (currentToken s) = T_PLUS then Opr_ADD else Opr_SUB) s1))
      else Returns s)"

subsection \<open>Conditions and statements\<close>

text \<open>The \<open>switch (relOp)\<close> of \<open>parseLexp\<close>.\<close>

definition relop_code :: "TokenType \<Rightarrow> int" where
  "relop_code relOp =
     (if relOp = T_EQ then Opr_EQ
      else if relOp = T_NEQ then Opr_NEQ
      else if relOp = T_LT then Opr_LT
      else if relOp = T_LEQ then Opr_LEQ
      else if relOp = T_GT then Opr_GT
      else Opr_GEQ)"

definition is_relop :: "ParserWithCodegen \<Rightarrow> bool" where
  "is_relop s \<longleftrightarrow>
     check T_EQ s \<or> check T_NEQ s \<or> check T_LT s \<or> check T_LEQ s \<or> check T_GT s \<or> check T_GEQ s"

definition parseLexp :: "nat \<Rightarrow> ParserWithCodegen \<Rightarrow> ParserWithCodegen outcome" where
  "parseLexp n s =
     (if check T_ODD s then
        andThen (parseExp n (advance s)) (\<lambda>s1. Returns (emitP Op_OPR 0 Opr_ODD s1))
      else
        andThen (parseExp n s)
          (\<lambda>s1. if is_relop s1 then
                  andThen (parseExp n (advance s1))
                    (\<lambda>s2. Returns (emitP Op_OPR 0 (relop_code (ttype (currentToken s1))) s2))
                else Returns (reportError s1)))"

text \<open>
  The argument list of a call, \<open>do { parseExp(); } while (match(TokenType::COMMA));\<close>, and
  the lists of \<open>write\<close> and \<open>read\<close>.
\<close>

fun parseStatement_args :: "nat \<Rightarrow> ParserWithCodegen \<Rightarrow> ParserWithCodegen outcome" where
  "parseStatement_args 0 s = Unfinished"
| "parseStatement_args (Suc n) s =
     andThen (parseExp n s)
       (\<lambda>s1. if check T_COMMA s1 then parseStatement_args n (advance s1) else Returns s1)"

fun parseStatement_write :: "nat \<Rightarrow> ParserWithCodegen \<Rightarrow> ParserWithCodegen outcome" where
  "parseStatement_write 0 s = Unfinished"
| "parseStatement_write (Suc n) s =
     andThen (parseExp n s)
       (\<lambda>s1. let s2 = emitP Op_WRT 0 0 s1
             in if check T_COMMA s2 then parseStatement_write n (advance s2) else Returns s2)"

fun parseStatement_read :: "nat \<Rightarrow> ParserWithCodegen \<Rightarrow> ParserWithCodegen outcome" where
  "parseStatement_read 0 s = Unfinished"
| "parseStatement_read (Suc n) s =
     (if check T_IDENTIFIER s then
        let s1 = advance
              (case lookup (symbolTable s) (tvalue (currentToken s)) of
                 None \<Rightarrow> reportError s
               | Some sy \<Rightarrow>
                   if sym_type sy = Sym_CONST then reportError s
                   else if sym_type sy = Sym_PROCEDURE then reportError s
                   else emitP Op_RED (levelDiff s sy) (sym_address sy) s)
        in if check T_COMMA s1 then parseStatement_read n (advance s1) else Returns s1
      else Returns (reportError s))"

text \<open>
  The call statement, after \<open>match(TokenType::CALL)\<close>: the instruction \<open>CAL\<close> is emitted
  where the procedure name is resolved, the arguments are parsed afterwards.
\<close>

definition parseStatement_call :: "nat \<Rightarrow> ParserWithCodegen \<Rightarrow> ParserWithCodegen outcome" where
  "parseStatement_call n s =
     (let s1 =
        (if check T_IDENTIFIER s then
           advance
             (case lookup (symbolTable s) (tvalue (currentToken s)) of
                None \<Rightarrow> reportError s
              | Some sy \<Rightarrow>
                  if sym_type sy \<noteq> Sym_PROCEDURE then reportError s
                  else emitP Op_CAL (levelDiff s sy) (sym_address sy) s)
         else reportError s)
      in andThen (expect n T_LPAREN s1)
           (\<lambda>s2. andThen (if \<not> check T_RPAREN s2 then parseStatement_args n s2 else Returns s2)
                   (expect n T_RPAREN)))"

text \<open>
  The three error branches of an assignment (undeclared name, constant, procedure) do the
  same: report, skip the name, and parse the right-hand side if \<open>:=\<close> or \<open>=\<close> follows.
\<close>

definition parseStatement_recover :: "nat \<Rightarrow> ParserWithCodegen \<Rightarrow> ParserWithCodegen outcome" where
  "parseStatement_recover n s =
     (let s1 = advance (reportError s)
      in if check T_ASSIGN s1 \<or> check T_EQ s1 then parseExp n (advance s1) else Returns s1)"

fun parseStatement :: "nat \<Rightarrow> ParserWithCodegen \<Rightarrow> ParserWithCodegen outcome"
  and parseBody :: "nat \<Rightarrow> ParserWithCodegen \<Rightarrow> ParserWithCodegen outcome"
  and parseBody_loop :: "nat \<Rightarrow> ParserWithCodegen \<Rightarrow> ParserWithCodegen outcome"
where
  "parseStatement 0 s = Unfinished"
| "parseStatement (Suc n) s =
     (if check T_IDENTIFIER s then
        (case lookup (symbolTable s) (tvalue (currentToken s)) of
           None \<Rightarrow> parseStatement_recover n s
         | Some sy \<Rightarrow>
             if sym_type sy = Sym_CONST then parseStatement_recover n s
             else if sym_type sy = Sym_PROCEDURE then parseStatement_recover n s
             else
               andThen (if check T_EQ (advance s) then Returns (advance (reportError (advance s)))
                        else expect n T_ASSIGN (advance s))
                 (\<lambda>s1. andThen (parseExp n s1)
                         (\<lambda>s2. Returns (emitP Op_STO (levelDiff s2 sy) (sym_address sy) s2))))
      else if check T_IF s then
        andThen (parseLexp n (advance s))
          (\<lambda>s1. andThen (expect n T_THEN s1)
            (\<lambda>s2. let jpcAddr = nextAddr s2 in
              andThen (parseStatement n (emitP Op_JPC 0 0 s2))
                (\<lambda>s3. if check T_ELSE s3 then
                        let jmpAddr = nextAddr (advance s3);
                            s4 = emitP Op_JMP 0 0 (advance s3);
                            s5 = backpatchP jpcAddr (nextAddr s4) s4
                        in andThen (parseStatement n s5)
                             (\<lambda>s6. Returns (backpatchP jmpAddr (nextAddr s6) s6))
                      else Returns (backpatchP jpcAddr (nextAddr s3) s3))))
      else if check T_WHILE s then
        (let loopAddr = nextAddr (advance s) in
         andThen (parseLexp n (advance s))
           (\<lambda>s1. andThen (expect n T_DO s1)
             (\<lambda>s2. let jpcAddr = nextAddr s2 in
               andThen (parseStatement n (emitP Op_JPC 0 0 s2))
                 (\<lambda>s3. let s4 = emitP Op_JMP 0 loopAddr s3
                       in Returns (backpatchP jpcAddr (nextAddr s4) s4)))))
      else if check T_CALL s then parseStatement_call n (advance s)
      else if check T_BEGIN s then parseBody n s
      else if check T_READ s then
        andThen (expect n T_LPAREN (advance s))
          (\<lambda>s1. andThen (parseStatement_read n s1) (expect n T_RPAREN))
      else if check T_WRITE s then
        andThen (expect n T_LPAREN (advance s))
          (\<lambda>s1. andThen (parseStatement_write n s1) (expect n T_RPAREN))
      else if \<not> check T_SEMICOLON s \<and> \<not> check T_END s \<and> \<not> check T_ELSE s \<and>
              \<not> check T_END_OF_FILE s
      then Returns (reportError s)
      else Returns s)"
| "parseBody 0 s = Unfinished"
| "parseBody (Suc n) s =
     andThen (expect n T_BEGIN s)
       (\<lambda>s1. andThen (parseStatement n s1)
         (\<lambda>s2. andThen (parseBody_loop n s2)
           (\<lambda>s3. expect n T_END (if \<not> check T_END s3 then reportError s3 else s3))))"
| "parseBody_loop 0 s = Unfinished"
| "parseBody_loop (Suc n) s =
     (if check T_SEMICOLON s then
        if check T_END (advance s) then Returns (advance s)
        else andThen (parseStatement n (advance s)) (parseBody_loop n)
      else Returns s)"

subsection \<open>Declarations, blocks and the program\<close>

text \<open>
  The loop of \<open>parseCondecl\<close>,
  \<open>do { if (check(IDENTIFIER)) { ... } else { reportExpected; break; } } while (match(COMMA));\<close>
\<close>

fun parseCondecl_loop :: "nat \<Rightarrow> ParserWithCodegen \<Rightarrow> ParserWithCodegen outcome" where
  "parseCondecl_loop 0 s = Unfinished"
| "parseCondecl_loop (Suc n) s =
     (if check T_IDENTIFIER s then
        let constName = tvalue (currentToken s);
            s1 = advance s
        in andThen (if check T_EQ s1 then Returns (advance (reportError s1))
                    else expect n T_ASSIGN s1)
             (\<lambda>s2. let negative = check T_MINUS s2;
                       s3 = (if check T_MINUS s2 \<or> check T_PLUS s2 then advance s2 else s2)
                   in andThen
                        (if check T_INTEGER s3 then
                           (case stoi (tvalue (currentToken s3)) of
                              Inl e \<Rightarrow> Throws e
                            | Inr v \<Rightarrow>
                                if negative \<and> \<not> in_int (- v) then Throws NegationOverflow
                                else
                                  Returns
                                    (advance
                                       (if lookupCurrent (symbolTable s3) constName \<noteq> None
                                        then reportError s3
                                        else addSymbolP constName Sym_CONST
                                               (if negative then - v else v) s3)))
                         else Returns (reportError s3))
                        (\<lambda>s4. if check T_COMMA s4 then parseCondecl_loop n (advance s4)
                              else Returns s4))
      else Returns (reportError s))"

definition parseCondecl :: "nat \<Rightarrow> ParserWithCodegen \<Rightarrow> ParserWithCodegen outcome" where
  "parseCondecl n s =
     andThen (expect n T_CONST s) (\<lambda>s1. andThen (parseCondecl_loop n s1) (expectSemicolon n))"

fun parseVardecl_loop :: "nat \<Rightarrow> ParserWithCodegen \<Rightarrow> ParserWithCodegen outcome" where
  "parseVardecl_loop 0 s = Unfinished"
| "parseVardecl_loop (Suc n) s =
     (if check T_IDENTIFIER s then
        let varName = tvalue (currentToken s);
            s1 = advance
                   (if lookupCurrent (symbolTable s) varName \<noteq> None then reportError s
                    else addSymbolP varName Sym_VAR 0 s)
        in if check T_COMMA s1 then parseVardecl_loop n (advance s1) else Returns s1
      else Returns (reportError s))"

definition parseVardecl :: "nat \<Rightarrow> ParserWithCodegen \<Rightarrow> ParserWithCodegen outcome" where
  "parseVardecl n s =
     andThen (expect n T_VAR s) (\<lambda>s1. andThen (parseVardecl_loop n s1) (expectSemicolon n))"

text \<open>
  The parameter list of \<open>parseProc\<close>:
  \<^verbatim>\<open>do {
      if (check(TokenType::IDENTIFIER)) {
          std::string paramName = currentToken().value;
          symbolTable.addSymbol(paramName, SymbolType::VAR, 0);
          advance();
      }
  } while (match(TokenType::COMMA));\<close>
  Every parameter is added; there is no \<open>lookupCurrent\<close> here.
\<close>

fun parseProc_params :: "nat \<Rightarrow> ParserWithCodegen \<Rightarrow> ParserWithCodegen outcome" where
  "parseProc_params 0 s = Unfinished"
| "parseProc_params (Suc n) s =
     (let s1 = (if check T_IDENTIFIER s
                then advance (addSymbolP (tvalue (currentToken s)) Sym_VAR 0 s)
                else s)
      in if check T_COMMA s1 then parseProc_params n (advance s1) else Returns s1)"

definition enterScopeP :: "ParserWithCodegen \<Rightarrow> ParserWithCodegen" where
  "enterScopeP s = s\<lparr>symbolTable := enterScope (symbolTable s)\<rparr>"

definition exitScopeP :: "ParserWithCodegen \<Rightarrow> ParserWithCodegen" where
  "exitScopeP s = s\<lparr>symbolTable := exitScope (symbolTable s)\<rparr>"

text \<open>The head of \<open>parseProc\<close>, from the procedure name to the \<open>;\<close> before the block.\<close>

definition parseProc_head :: "nat \<Rightarrow> ParserWithCodegen \<Rightarrow> ParserWithCodegen outcome" where
  "parseProc_head n s =
     andThen (expect n T_PROCEDURE s)
       (\<lambda>s1. let s2 =
                (if check T_IDENTIFIER s1 then
                   advance
                     (if lookupCurrent (symbolTable s1) (tvalue (currentToken s1)) \<noteq> None
                      then reportError s1
                      else addSymbolP (tvalue (currentToken s1)) Sym_PROCEDURE (nextAddr s1) s1)
                 else reportError s1)
             in andThen (expect n T_LPAREN s2)
                  (\<lambda>s3. let s4 = enterScopeP s3
                        in andThen (if check T_IDENTIFIER s4 then parseProc_params n s4
                                    else Returns s4)
                             (\<lambda>s5. andThen (expect n T_RPAREN s5) (expectSemicolon n))))"

fun parseBlock :: "nat \<Rightarrow> ParserWithCodegen \<Rightarrow> ParserWithCodegen outcome"
  and parseBlock_procs :: "nat \<Rightarrow> ParserWithCodegen \<Rightarrow> ParserWithCodegen outcome"
  and parseProc :: "nat \<Rightarrow> ParserWithCodegen \<Rightarrow> ParserWithCodegen outcome"
where
  "parseBlock 0 s = Unfinished"
| "parseBlock (Suc n) s =
     (let jmpAddr = nextAddr s;
          s1 = emitP Op_JMP 0 0 s
      in andThen (if check T_CONST s1 then parseCondecl n s1 else Returns s1)
           (\<lambda>s2. andThen (if check T_VAR s2 then parseVardecl n s2 else Returns s2)
             (\<lambda>s3. andThen (parseBlock_procs n s3)
               (\<lambda>s4. let s5 = backpatchP jmpAddr (nextAddr s4) s4;
                         dataSize = getCurrentAddress (symbolTable s5);
                         s6 = emitP Op_INT 0 dataSize s5
                     in parseBody n s6))))"
| "parseBlock_procs 0 s = Unfinished"
| "parseBlock_procs (Suc n) s =
     (if check T_PROCEDURE s then andThen (parseProc n s) (parseBlock_procs n) else Returns s)"
| "parseProc 0 s = Unfinished"
| "parseProc (Suc n) s =
     andThen (parseProc_head n s)
       (\<lambda>s1. andThen (parseBlock n s1)
         (\<lambda>s2. expectSemicolon n (exitScopeP (emitP Op_OPR 0 Opr_RET s2))))"

definition parseProgram :: "nat \<Rightarrow> ParserWithCodegen \<Rightarrow> ParserWithCodegen outcome" where
  "parseProgram n s =
     andThen (expect n T_PROGRAM s)
       (\<lambda>s1. let s2 = (if check T_IDENTIFIER s1 then advance s1 else reportError s1)
             in andThen (expect n T_SEMICOLON s2)
                  (\<lambda>s3. andThen (parseBlock n s3)
                    (\<lambda>s4. let s5 = emitP Op_OPR 0 Opr_RET s4
                          in Returns (if \<not> check T_END_OF_FILE s5 then reportError s5 else s5))))"

text \<open>
  \<open>ParserWithCodegen::parse\<close> on a freshly constructed parser. The C++ returns
  \<open>!hasErrorFlag\<close>; the model returns the parser, whose \<open>hasErrorFlag\<close> and generated code
  (\<open>getCode\<close>) are what the driver reads next.
\<close>

definition parse :: "nat \<Rightarrow> Token list \<Rightarrow> ParserWithCodegen outcome" where
  "parse n tokenList =
     (if tokenList = [] then Throws EmptyTokenVector
      else parseProgram n (ParserWithCodegen_new tokenList))"

definition getCode :: "ParserWithCodegen \<Rightarrow> Instruction list" where
  "getCode s = cg_code (codeGen s)"

text \<open>
  What the driver takes from the parser: the value returned by \<open>parse()\<close> and the code
  returned by \<open>getCode()\<close>.
\<close>

definition compile :: "nat \<Rightarrow> Token list \<Rightarrow> (bool \<times> Instruction list) outcome" where
  "compile n tokenList = map_outcome (\<lambda>s. (\<not> hasErrorFlag s, getCode s)) (parse n tokenList)"

section \<open>Token vectors of some source texts\<close>

text \<open>
  The vectors \<open>Lexer::tokenize\<close> builds for four one-line source texts (type, lexeme,
  line, column and length of every token, then the end-of-file token):
  \<^item> \<open>program p; procedure q(a); begin end; begin call q(7) end\<close>
  \<^item> \<open>program p; begin write(2147483648) end\<close>
  \<^item> \<open>program p; const c := 99999999999; begin end\<close>
  \<^item> \<open>program p; procedure q(a, a); begin a := 1 end; begin end\<close>

  For the two integer literals beyond the 32-bit range \<open>readNumber\<close> prints the warning
  "integer literal is too large", sets no error flag and returns an \<open>INTEGER\<close> token.
\<close>

definition tokens_call_with_argument :: "Token list" where
  "tokens_call_with_argument =
   [Token T_PROGRAM ''program'' 1 1 7, Token T_IDENTIFIER ''p'' 1 9 1,
    Token T_SEMICOLON '';'' 1 10 1, Token T_PROCEDURE ''procedure'' 1 12 9,
    Token T_IDENTIFIER ''q'' 1 22 1, Token T_LPAREN ''('' 1 23 1,
    Token T_IDENTIFIER ''a'' 1 24 1, Token T_RPAREN '')'' 1 25 1,
    Token T_SEMICOLON '';'' 1 26 1, Token T_BEGIN ''begin'' 1 28 5,
    Token T_END ''end'' 1 34 3, Token T_SEMICOLON '';'' 1 37 1,
    Token T_BEGIN ''begin'' 1 39 5, Token T_CALL ''call'' 1 45 4,
    Token T_IDENTIFIER ''q'' 1 50 1, Token T_LPAREN ''('' 1 51 1,
    Token T_INTEGER ''7'' 1 52 1, Token T_RPAREN '')'' 1 53 1, Token T_END ''end'' 1 55 3,
    Token T_END_OF_FILE '''' 1 58 0]"

definition tokens_write_large_literal :: "Token list" where
  "tokens_write_large_literal =
   [Token T_PROGRAM ''program'' 1 1 7, Token T_IDENTIFIER ''p'' 1 9 1,
    Token T_SEMICOLON '';'' 1 10 1, Token T_BEGIN ''begin'' 1 12 5,
    Token T_WRITE ''write'' 1 18 5, Token T_LPAREN ''('' 1 23 1,
    Token T_INTEGER ''2147483648'' 1 24 10, Token T_RPAREN '')'' 1 34 1,
    Token T_END ''end'' 1 36 3, Token T_END_OF_FILE '''' 1 39 0]"

definition tokens_const_large_literal :: "Token list" where
  "tokens_const_large_literal =
   [Token T_PROGRAM ''program'' 1 1 7, Token T_IDENTIFIER ''p'' 1 9 1,
    Token T_SEMICOLON '';'' 1 10 1, Token T_CONST ''const'' 1 12 5,
    Token T_IDENTIFIER ''c'' 1 18 1, Token T_ASSIGN '':='' 1 20 2,
    Token T_INTEGER ''99999999999'' 1 23 11, Token T_SEMICOLON '';'' 1 34 1,
    Token T_BEGIN ''begin'' 1 36 5, Token T_END ''end'' 1 42 3,
    Token T_END_OF_FILE '''' 1 45 0]"

definition tokens_duplicate_parameter :: "Token list" where
  "tokens_duplicate_parameter =
   [Token T_PROGRAM ''program'' 1 1 7, Token T_IDENTIFIER ''p'' 1 9 1,
    Token T_SEMICOLON '';'' 1 10 1, Token T_PROCEDURE ''procedure'' 1 12 9,
    Token T_IDENTIFIER ''q'' 1 22 1, Token T_LPAREN ''('' 1 23 1,
    Token T_IDENTIFIER ''a'' 1 24 1, Token T_COMMA '','' 1 25 1,
    Token T_IDENTIFIER ''a'' 1 27 1, Token T_RPAREN '')'' 1 28 1,
    Token T_SEMICOLON '';'' 1 29 1, Token T_BEGIN ''begin'' 1 31 5,
    Token T_IDENTIFIER ''a'' 1 37 1, Token T_ASSIGN '':='' 1 39 2,
    Token T_INTEGER ''1'' 1 42 1, Token T_END ''end'' 1 44 3,
    Token T_SEMICOLON '';'' 1 47 1, Token T_BEGIN ''begin'' 1 49 5,
    Token T_END ''end'' 1 55 3, Token T_END_OF_FILE '''' 1 58 0]"

section \<open>Properties of the virtual machine\<close>

subsection \<open>Evaluation of concrete machines\<close>

lemma length_zero_stack [simp]: "length zero_stack = 10000"
  by (simp add: zero_stack_def STACK_SIZE_def)

lemma nth_zero_stack [simp]: "n < 10000 \<Longrightarrow> zero_stack ! n = 0"
  by (simp add: zero_stack_def STACK_SIZE_def)

lemma base_0 [simp]: "base st b 0 = Inr b"
  by (simp add: base.simps)

lemma run_loop_numeral:
  "run_loop (numeral k) s =
     (if running s \<and> pc_in_code s then
        (case step s of
           Inl e \<Rightarrow> Some (Inl e)
         | Inr s' \<Rightarrow> run_loop (pred_numeral k) (termination_test s'))
      else Some (Inr s))"
  by (simp add: numeral_eq_Suc)

lemmas vm_eval =
  execute_def run_def step_def pc_in_code_def loadCode_def Interpreter_new_def
  executeLIT_def executeOPR_def executeLOD_def executeSTO_def executeCAL_def executeINT_def
  executeJMP_def executeJPC_def executeRED_def executeWRT_def binop_def bool_int_def
  stack_wr_def stack_rd_def ck_int_def in_int_def STACK_SIZE_def
  termination_test_def ret_with_empty_stack_def
  RA_OFFSET_def DL_OFFSET_def SL_OFFSET_def OprType_defs Let_def

subsection \<open>Runtime errors and the end of the loop\<close>

text \<open>
  An instruction either leaves \<open>running\<close> and \<open>cerr\<close> as they are, or it reports exactly
  one runtime error and clears \<open>running\<close>.
\<close>

definition quiet :: "Interpreter \<Rightarrow> Interpreter \<Rightarrow> bool" where
  "quiet s s' \<longleftrightarrow>
     (running s' = running s \<and> cerr s' = cerr s) \<or>
     (\<not> running s' \<and> (\<exists>e. cerr s' = cerr s @ [e]))"

lemma binop_quiet: "binop f s = Inr s' \<Longrightarrow> quiet s s'"
  by (auto simp: binop_def Let_def quiet_def split: sum.splits)

lemma executeOPR_quiet: "executeOPR s = Inr s' \<Longrightarrow> quiet s s'"
  unfolding executeOPR_def Let_def
  by (auto split: if_splits sum.splits dest: binop_quiet simp: quiet_def)

lemma executeLIT_quiet: "executeLIT s = Inr s' \<Longrightarrow> quiet s s'"
  by (auto simp: executeLIT_def quiet_def split: sum.splits)

lemma executeLOD_quiet: "executeLOD s = Inr s' \<Longrightarrow> quiet s s'"
  by (auto simp: executeLOD_def quiet_def split: sum.splits)

lemma executeSTO_quiet: "executeSTO s = Inr s' \<Longrightarrow> quiet s s'"
  by (auto simp: executeSTO_def quiet_def split: sum.splits)

lemma executeCAL_quiet: "executeCAL s = Inr s' \<Longrightarrow> quiet s s'"
  by (auto simp: executeCAL_def quiet_def split: sum.splits)

lemma executeINT_quiet: "executeINT s = Inr s' \<Longrightarrow> quiet s s'"
  by (auto simp: executeINT_def quiet_def split: sum.splits if_splits)

lemma executeJMP_quiet: "executeJMP s = Inr s' \<Longrightarrow> quiet s s'"
  by (auto simp: executeJMP_def quiet_def)

lemma executeJPC_quiet: "executeJPC s = Inr s' \<Longrightarrow> quiet s s'"
  by (auto simp: executeJPC_def quiet_def split: sum.splits if_splits)

lemma executeRED_quiet: "executeRED s = Inr s' \<Longrightarrow> quiet s s'"
  by (auto simp: executeRED_def quiet_def split: sum.splits list.splits)

lemma executeWRT_quiet: "executeWRT s = Inr s' \<Longrightarrow> quiet s s'"
  by (auto simp: executeWRT_def quiet_def split: sum.splits)

lemmas execute_quiet =
  executeLIT_quiet executeOPR_quiet executeLOD_quiet executeSTO_quiet executeCAL_quiet
  executeINT_quiet executeJMP_quiet executeJPC_quiet executeRED_quiet executeWRT_quiet

lemma step_quiet:
  assumes "step s = Inr s'" and "pc_in_code s"
  shows "quiet s s'"
proof -
  let ?s1 = "s\<lparr>reg_I := code s ! nat (reg_P s), reg_P := reg_P s + 1,
                stepCount := stepCount s + 1\<rparr>"
  have "quiet ?s1 s'"
    using assms by (cases "op (code s ! nat (reg_P s))") (simp_all add: step_def execute_quiet)
  then show ?thesis by (simp add: quiet_def)
qed

lemma step_code: "step s = Inr s' \<Longrightarrow> code s' = code s"
  unfolding step_def Let_def
  by (auto simp: executeLIT_def executeOPR_def executeLOD_def executeSTO_def executeCAL_def
      executeINT_def executeJMP_def executeJPC_def executeRED_def executeWRT_def binop_def Let_def
      split: if_splits OpCode.splits sum.splits list.splits)

lemma termination_test_fields [simp]:
  "cerr (termination_test s) = cerr s"
  "reg_I (termination_test s) = reg_I s"
  "reg_T (termination_test s) = reg_T s"
  "reg_P (termination_test s) = reg_P s"
  "code (termination_test s) = code s"
  by (simp_all add: termination_test_def)

lemma pc_in_code_termination_test [simp]: "pc_in_code (termination_test s) = pc_in_code s"
  by (simp add: pc_in_code_def)

lemma ret_termination_test [simp]:
  "ret_with_empty_stack (termination_test s) = ret_with_empty_stack s"
  by (simp add: ret_with_empty_stack_def)

lemma running_termination_test:
  "running (termination_test s) \<longleftrightarrow> running s \<and> \<not> ret_with_empty_stack s"
  by (simp add: termination_test_def)

lemma run_loop_idle: "\<not> (running s \<and> pc_in_code s) \<Longrightarrow> run_loop n s = Some (Inr s)"
  by (cases n) auto

lemma run_loop_stop:
  "run_loop n s = Some (Inr s') \<Longrightarrow> running s \<Longrightarrow> pc_in_code s \<Longrightarrow>
     \<exists>es. cerr s' = cerr s @ es \<and> (es = [] \<longrightarrow> ret_with_empty_stack s' \<or> \<not> pc_in_code s')"
proof (induction n arbitrary: s)
  case 0
  then show ?case by simp
next
  case (Suc n)
  from Suc.prems obtain s1 where s1: "step s = Inr s1"
    and rl: "run_loop n (termination_test s1) = Some (Inr s')"
    by (auto split: sum.splits)
  have q: "quiet s s1" using s1 Suc.prems(3) by (rule step_quiet)
  show ?case
  proof (cases "running (termination_test s1) \<and> pc_in_code (termination_test s1)")
    case True
    then have "cerr s1 = cerr s"
      using q Suc.prems(2) by (auto simp: quiet_def running_termination_test)
    moreover from Suc.IH [OF rl] True obtain es where "cerr s' = cerr (termination_test s1) @ es"
      and "es = [] \<longrightarrow> ret_with_empty_stack s' \<or> \<not> pc_in_code s'" by blast
    ultimately show ?thesis by auto
  next
    case False
    then have e: "s' = termination_test s1" using rl by (simp add: run_loop_idle)
    from q Suc.prems(2) consider "running s1" and "cerr s1 = cerr s"
      | e where "cerr s1 = cerr s @ [e]"
      by (auto simp: quiet_def)
    then show ?thesis
    proof cases
      case 1
      then show ?thesis using False e by (auto simp: running_termination_test)
    next
      case 2
      then show ?thesis using e by auto
    qed
  qed
qed

subsection \<open>The result of a run does not depend on the bound\<close>

lemma run_loop_mono: "run_loop n s = Some r \<Longrightarrow> run_loop (n + k) s = Some r"
proof (induction n arbitrary: s)
  case 0
  then show ?case by (cases k) (auto split: if_splits)
next
  case (Suc n)
  then show ?case by (auto split: sum.splits if_splits)
qed

lemma run_loop_det:
  assumes "run_loop n1 s = Some r1" and "run_loop n2 s = Some r2"
  shows "r1 = r2"
proof (cases "n1 \<le> n2")
  case True
  then obtain k where "n2 = n1 + k" using le_Suc_ex by blast
  with run_loop_mono [OF assms(1), of k] assms(2) show ?thesis by simp
next
  case False
  then obtain k where "n1 = n2 + k" using le_Suc_ex nat_le_linear by blast
  with run_loop_mono [OF assms(2), of k] assms(1) show ?thesis by simp
qed

lemma run_det:
  assumes "run n1 s = Some r1" and "run n2 s = Some r2"
  shows "r1 = r2"
proof -
  let ?s0 = "s\<lparr>cout := cout s @ [Banner], running := True, reg_P := 0, reg_T := - 1,
                reg_B := 0, stepCount := 0\<rparr>"
  from assms(1) obtain q1 where q1: "run_loop n1 ?s0 = Some q1"
    by (auto simp: run_def split: option.splits)
  from assms(2) obtain q2 where q2: "run_loop n2 ?s0 = Some q2"
    by (auto simp: run_def split: option.splits)
  have "q1 = q2" using q1 q2 by (rule run_loop_det)
  then show ?thesis using assms q1 q2 by (simp add: run_def)
qed

lemma run_stop:
  assumes "run n m = Some (Inr m')" and "cerr m' = cerr m"
  shows "ret_with_empty_stack m' \<or> \<not> pc_in_code m'"
proof -
  let ?s0 = "m\<lparr>cout := cout m @ [Banner], running := True, reg_P := 0, reg_T := - 1,
                reg_B := 0, stepCount := 0\<rparr>"
  from assms(1) obtain q where q: "run_loop n ?s0 = Some (Inr q)"
    and m': "m' = q\<lparr>cout := cout q @ [Summary (stepCount q)]\<rparr>"
    by (auto simp: run_def split: option.splits sum.splits)
  have obs: "ret_with_empty_stack m' = ret_with_empty_stack q" "pc_in_code m' = pc_in_code q"
    "cerr m' = cerr q"
    by (simp_all add: m' ret_with_empty_stack_def pc_in_code_def)
  show ?thesis
  proof (cases "pc_in_code ?s0")
    case True
    from run_loop_stop [OF q _ True] obtain es where "cerr q = cerr ?s0 @ es"
      and "es = [] \<longrightarrow> ret_with_empty_stack q \<or> \<not> pc_in_code q" by auto
    then show ?thesis using assms(2) obs by simp
  next
    case False
    then have "q = ?s0" using q by (simp add: run_loop_idle)
    then show ?thesis using False obs by simp
  qed
qed

lemma smod_2_eq_1: "(t::int) smod 2 = 1 \<longleftrightarrow> 0 < t \<and> odd t"
  apply (simp add: signed_modulo_int_def sgn_if)
  apply presburger
  done

section \<open>Claims about the virtual machine\<close>

text \<open>
  C10. Executing \<open>OPR 0 6\<close> (ODD) replaces the value \<open>t\<close> on top of the stack by 1 when
  \<open>t % 2 == 1\<close> under the truncated remainder of C++ (\<open>smod\<close>, whose sign follows the
  dividend) and by 0 otherwise. So the result is 1 exactly for the positive odd values,
  and 0 for every negative \<open>t\<close>, the negative odd values included.
\<close>

theorem ODD_truncated_remainder:
  assumes "address (reg_I s) = Opr_ODD"
    and "stack_rd (stack s) (reg_T s) = Inr t"
  shows "executeOPR s =
           Inr (s\<lparr>stack := (stack s)[nat (reg_T s) := (if t smod 2 = 1 then 1 else 0)]\<rparr>)
         \<and> t smod 2 = sgn t * (\<bar>t\<bar> mod 2)
         \<and> (t smod 2 = 1 \<longleftrightarrow> 0 < t \<and> odd t)
         \<and> (t < 0 \<longrightarrow> executeOPR s = Inr (s\<lparr>stack := (stack s)[nat (reg_T s) := 0]\<rparr>))"
proof -
  have run: "executeOPR s =
      Inr (s\<lparr>stack := (stack s)[nat (reg_T s) := (if t smod 2 = 1 then 1 else 0)]\<rparr>)"
    using assms
    by (auto simp: executeOPR_def Opr_ODD_def stack_rd_def stack_wr_def split: if_splits)
  have rem: "t smod 2 = sgn t * (\<bar>t\<bar> mod 2)"
    by (simp add: signed_modulo_int_def)
  have neg: "t < 0 \<longrightarrow> executeOPR s = Inr (s\<lparr>stack := (stack s)[nat (reg_T s) := 0]\<rparr>)"
    using run by (simp add: smod_2_eq_1)
  show ?thesis using run rem neg smod_2_eq_1 [of t] by blast
qed

theorem ODD_truncated_remainder_witness:
  "executeOPR \<lparr>code = [Instruction Op_OPR 0 6], stack = zero_stack[0 := - 3],
       reg_I = Instruction Op_OPR 0 6, reg_P = 1, reg_T = 0, reg_B = 0, stepCount = 1,
       running = True, cin = [], cout = [], cerr = []\<rparr>
   = Inr \<lparr>code = [Instruction Op_OPR 0 6], stack = zero_stack[0 := 0],
       reg_I = Instruction Op_OPR 0 6, reg_P = 1, reg_T = 0, reg_B = 0, stepCount = 1,
       running = True, cin = [], cout = [], cerr = []\<rparr>"
  using ODD_truncated_remainder [of
      "\<lparr>code = [Instruction Op_OPR 0 6], stack = zero_stack[0 := - 3],
        reg_I = Instruction Op_OPR 0 6, reg_P = 1, reg_T = 0, reg_B = 0, stepCount = 1,
        running = True, cin = [], cout = [], cerr = []\<rparr>" "- 3"]
  by (simp add: Opr_ODD_def stack_rd_def)

text \<open>
  C3. The claim: whenever an instruction would grow the stack past its capacity of 10000
  slots, be it \<open>INT\<close>, \<open>LIT\<close>, \<open>LOD\<close> or the header written by \<open>CAL\<close>, the machine halts
  with "Stack overflow" and writes no slot at or beyond the capacity. Only \<open>executeINT\<close>
  tests \<open>T >= STACK_SIZE\<close>. With the stack full, \<open>LIT\<close> and \<open>LOD\<close> store to \<open>stack[10000]\<close>,
  and \<open>CAL\<close> with \<open>T = 9998\<close> stores to \<open>stack[10000]\<close> and \<open>stack[10001]\<close>: an access
  outside the vector, and no "Stack overflow". The two-instruction program
  \<open>INT 0 10000; LIT 0 1\<close> reaches the store from the initial state. \<open>INT\<close> alone behaves
  as claimed (last conjunct).
\<close>

theorem stack_growth_unchecked:
  "step \<lparr>code = [Instruction Op_LIT 0 1], stack = zero_stack, reg_I = Instruction Op_LIT 0 0,
          reg_P = 0, reg_T = 9999, reg_B = 0, stepCount = 0, running = True,
          cin = [], cout = [], cerr = []\<rparr> = Inl OutOfBounds
   \<and> step \<lparr>code = [Instruction Op_LOD 0 3], stack = zero_stack, reg_I = Instruction Op_LIT 0 0,
          reg_P = 0, reg_T = 9999, reg_B = 0, stepCount = 0, running = True,
          cin = [], cout = [], cerr = []\<rparr> = Inl OutOfBounds
   \<and> step \<lparr>code = [Instruction Op_CAL 0 0], stack = zero_stack, reg_I = Instruction Op_LIT 0 0,
          reg_P = 0, reg_T = 9998, reg_B = 0, stepCount = 0, running = True,
          cin = [], cout = [], cerr = []\<rparr> = Inl OutOfBounds
   \<and> execute 2 [Instruction Op_INT 0 10000, Instruction Op_LIT 0 1] [] = Some (Inl OutOfBounds)
   \<and> step \<lparr>code = [Instruction Op_INT 0 1], stack = zero_stack, reg_I = Instruction Op_LIT 0 0,
          reg_P = 0, reg_T = 9999, reg_B = 0, stepCount = 0, running = True,
          cin = [], cout = [], cerr = []\<rparr>
       = Inr \<lparr>code = [Instruction Op_INT 0 1], stack = zero_stack, reg_I = Instruction Op_INT 0 1,
          reg_P = 1, reg_T = 10000, reg_B = 0, stepCount = 1, running = False,
          cin = [], cout = [], cerr = [StackOverflow]\<rparr>"
  by (simp add: vm_eval run_loop_numeral)

text \<open>
  C4, as stated: in a run with no runtime error the machine stops exactly when a
  just-executed RET leaves \<open>T < 0\<close>, and this is the only way a normal run ends. The loop
  of \<open>run\<close> has a second test, \<open>static_cast<size_t>(P) < code.size()\<close>: the one-instruction
  program \<open>LIT 0 7\<close> runs one step and stops with \<open>P = 1\<close>, \<open>T = 0\<close>, no runtime error, and
  no RET executed.
\<close>

theorem run_stops_without_RET:
  "execute 1 [Instruction Op_LIT 0 7] [] =
     Some (Inr \<lparr>code = [Instruction Op_LIT 0 7], stack = zero_stack[0 := 7],
       reg_I = Instruction Op_LIT 0 7, reg_P = 1, reg_T = 0, reg_B = 0, stepCount = 1,
       running = True, cin = [], cout = [Banner, Summary 1], cerr = []\<rparr>)
   \<and> \<not> ret_with_empty_stack \<lparr>code = [Instruction Op_LIT 0 7], stack = zero_stack[0 := 7],
       reg_I = Instruction Op_LIT 0 7, reg_P = 1, reg_T = 0, reg_B = 0, stepCount = 1,
       running = True, cin = [], cout = [Banner, Summary 1], cerr = []\<rparr>"
  by (simp add: vm_eval)

text \<open>
  C4, amended. (1) Executing RET (\<open>OPR 0 0\<close>) with the frame header inside the stack sets
  \<open>T\<close> to \<open>B - 1\<close>, \<open>P\<close> to \<open>stack[B + 0]\<close> and \<open>B\<close> to \<open>stack[B + 1]\<close>. (2) A run that
  returns without having reported a runtime error stopped because the instruction just
  executed was a RET that left \<open>T < 0\<close>, or because \<open>P\<close> is no longer an index of the
  instruction vector. (3, 4) Each of the two conditions does stop the loop: after a RET
  that left \<open>T < 0\<close> the termination test clears \<open>running\<close> and the loop returns, and with
  \<open>P\<close> outside the instruction vector the loop returns at once.
\<close>

theorem RET_and_run_exit:
  "(address (reg_I s) = Opr_RET \<longrightarrow> stack_rd (stack s) (reg_B s + RA_OFFSET) = Inr ra \<longrightarrow>
      stack_rd (stack s) (reg_B s + DL_OFFSET) = Inr dl \<longrightarrow>
      executeOPR s = Inr (s\<lparr>reg_T := reg_B s - 1, reg_P := ra, reg_B := dl\<rparr>))
   \<and> (run n m = Some (Inr m') \<longrightarrow> cerr m' = cerr m \<longrightarrow>
        ret_with_empty_stack m' \<or> \<not> pc_in_code m')
   \<and> (ret_with_empty_stack u \<longrightarrow>
        run_loop k (termination_test u) = Some (Inr (u\<lparr>running := False\<rparr>)))
   \<and> (\<not> pc_in_code v \<longrightarrow> run_loop k v = Some (Inr v))"
proof -
  have a: "address (reg_I s) = Opr_RET \<longrightarrow> stack_rd (stack s) (reg_B s + RA_OFFSET) = Inr ra \<longrightarrow>
      stack_rd (stack s) (reg_B s + DL_OFFSET) = Inr dl \<longrightarrow>
      executeOPR s = Inr (s\<lparr>reg_T := reg_B s - 1, reg_P := ra, reg_B := dl\<rparr>)"
    by (simp add: executeOPR_def Opr_RET_def)
  have b: "run n m = Some (Inr m') \<longrightarrow> cerr m' = cerr m \<longrightarrow>
        ret_with_empty_stack m' \<or> \<not> pc_in_code m'"
    using run_stop by blast
  have c: "ret_with_empty_stack u \<longrightarrow>
        run_loop k (termination_test u) = Some (Inr (u\<lparr>running := False\<rparr>))"
    by (simp add: run_loop_idle termination_test_def)
  have d: "\<not> pc_in_code v \<longrightarrow> run_loop k v = Some (Inr v)"
    by (simp add: run_loop_idle)
  show ?thesis using a b c d by blast
qed

theorem RET_and_run_exit_witness:
  "executeOPR \<lparr>code = [Instruction Op_JMP 0 1, Instruction Op_INT 0 3, Instruction Op_OPR 0 0],
       stack = zero_stack, reg_I = Instruction Op_OPR 0 0, reg_P = 3, reg_T = 2, reg_B = 0,
       stepCount = 3, running = True, cin = [], cout = [Banner], cerr = []\<rparr>
     = Inr \<lparr>code = [Instruction Op_JMP 0 1, Instruction Op_INT 0 3, Instruction Op_OPR 0 0],
       stack = zero_stack, reg_I = Instruction Op_OPR 0 0, reg_P = 0, reg_T = - 1, reg_B = 0,
       stepCount = 3, running = True, cin = [], cout = [Banner], cerr = []\<rparr>
   \<and> execute 3 [Instruction Op_JMP 0 1, Instruction Op_INT 0 3, Instruction Op_OPR 0 0] []
     = Some (Inr \<lparr>code = [Instruction Op_JMP 0 1, Instruction Op_INT 0 3, Instruction Op_OPR 0 0],
       stack = zero_stack, reg_I = Instruction Op_OPR 0 0, reg_P = 0, reg_T = - 1, reg_B = 0,
       stepCount = 3, running = False, cin = [], cout = [Banner, Summary 3], cerr = []\<rparr>)
   \<and> ret_with_empty_stack
       \<lparr>code = [Instruction Op_JMP 0 1, Instruction Op_INT 0 3, Instruction Op_OPR 0 0],
       stack = zero_stack, reg_I = Instruction Op_OPR 0 0, reg_P = 0, reg_T = - 1, reg_B = 0,
       stepCount = 3, running = False, cin = [], cout = [Banner, Summary 3], cerr = []\<rparr>
   \<and> run_loop 0 \<lparr>code = [Instruction Op_LIT 0 7], stack = zero_stack[0 := 7],
       reg_I = Instruction Op_LIT 0 7, reg_P = 1, reg_T = 0, reg_B = 0, stepCount = 1,
       running = True, cin = [], cout = [Banner], cerr = []\<rparr>
     = Some (Inr \<lparr>code = [Instruction Op_LIT 0 7], stack = zero_stack[0 := 7],
       reg_I = Instruction Op_LIT 0 7, reg_P = 1, reg_T = 0, reg_B = 0, stepCount = 1,
       running = True, cin = [], cout = [Banner], cerr = []\<rparr>)"
  using RET_and_run_exit [of
      "\<lparr>code = [Instruction Op_JMP 0 1, Instruction Op_INT 0 3, Instruction Op_OPR 0 0],
       stack = zero_stack, reg_I = Instruction Op_OPR 0 0, reg_P = 3, reg_T = 2, reg_B = 0,
       stepCount = 3, running = True, cin = [], cout = [Banner], cerr = []\<rparr>" 0 0
      3
      "loadCode [Instruction Op_JMP 0 1, Instruction Op_INT 0 3, Instruction Op_OPR 0 0]
         (Interpreter_new [])"
      "\<lparr>code = [Instruction Op_JMP 0 1, Instruction Op_INT 0 3, Instruction Op_OPR 0 0],
       stack = zero_stack, reg_I = Instruction Op_OPR 0 0, reg_P = 0, reg_T = - 1, reg_B = 0,
       stepCount = 3, running = False, cin = [], cout = [Banner, Summary 3], cerr = []\<rparr>"
      "\<lparr>code = [Instruction Op_JMP 0 1, Instruction Op_INT 0 3, Instruction Op_OPR 0 0],
       stack = zero_stack, reg_I = Instruction Op_OPR 0 0, reg_P = 0, reg_T = - 1, reg_B = 0,
       stepCount = 3, running = True, cin = [], cout = [Banner], cerr = []\<rparr>"
      0
      "\<lparr>code = [Instruction Op_LIT 0 7], stack = zero_stack[0 := 7],
       reg_I = Instruction Op_LIT 0 7, reg_P = 1, reg_T = 0, reg_B = 0, stepCount = 1,
       running = True, cin = [], cout = [Banner], cerr = []\<rparr>"]
  by (simp add: vm_eval run_loop_numeral)

section \<open>Properties of the diagnostic renderer\<close>

lemma renderSourceLine_append:
  "renderSourceLine (xs @ ys) = renderSourceLine xs @ renderSourceLine ys"
  by (induction xs) auto

lemma renderSourceLine_concat:
  "renderSourceLine l = concat (map (\<lambda>c. if c = TAB then ''    '' else [c]) l)"
  by (induction l) auto

lemma length_renderSourceLine:
  "length (renderSourceLine l) = length l + 3 * count_list l TAB"
  by (induction l) auto

lemma visualColumn_loop_eq:
  "visualColumn_loop cs column i v =
     v + int (length (renderSourceLine (take (nat (column - 1 - i)) cs)))"
proof (induction cs arbitrary: i v)
  case Nil
  then show ?case by simp
next
  case (Cons c cs)
  show ?case
  proof (cases "i < column - 1")
    case True
    then have "nat (column - 1 - i) = Suc (nat (column - 1 - (i + 1)))" by linarith
    then show ?thesis using True Cons.IH [of "i + 1"] by simp
  next
    case False
    then show ?thesis by simp
  qed
qed

lemma visualColumn_eq:
  "visualColumn line column = int (length (renderSourceLine (take (nat (column - 1)) line)))"
  by (simp add: visualColumn_def visualColumn_loop_eq)

lemma rendered_at_visualColumn:
  assumes "nat (column - 1) < length line" and "line ! nat (column - 1) \<noteq> TAB"
  shows "renderSourceLine line ! nat (visualColumn line column) = line ! nat (column - 1)"
proof -
  let ?k = "nat (column - 1)"
  have "line = take ?k line @ (line ! ?k) # drop (Suc ?k) line"
    using assms(1) by (simp add: id_take_nth_drop)
  then have "renderSourceLine line =
      renderSourceLine (take ?k line) @ (line ! ?k) # renderSourceLine (drop (Suc ?k) line)"
    using assms(2) by (metis renderSourceLine.simps(2) renderSourceLine_append)
  then show ?thesis by (simp add: visualColumn_eq nth_append)
qed

lemma caretLine_caret:
  "caretLine line column len ! nat (visualColumn line column) = CHR ''^''"
  by (simp add: caretLine_def nth_append)

lemma caretLine_spaces:
  "j < nat (visualColumn line column) \<Longrightarrow> caretLine line column len ! j = CHR '' ''"
  by (simp add: caretLine_def nth_append)

section \<open>Claims about the diagnostic renderer\<close>

text \<open>
  C9. When \<open>report\<close> displays a source line, every tab is printed as four spaces and
  every other byte as itself; the caret line has \<open>visualColumn\<close> spaces before the
  caret, and \<open>visualColumn\<close> is the number of bytes printed for the part of the line in
  front of the reported column (one per byte, three more per tab). So the caret stands
  under the first byte of the token: the byte of the printed line above the caret is the
  byte of the source line at the reported column.
\<close>

theorem tabs_render_as_four_spaces_and_caret_aligns:
  "renderSourceLine line = concat (map (\<lambda>c. if c = TAB then ''    '' else [c]) line)
   \<and> renderSourceLine line =
       renderSourceLine (take (nat (column - 1)) line) @
       renderSourceLine (drop (nat (column - 1)) line)
   \<and> visualColumn line column =
       int (length (renderSourceLine (take (nat (column - 1)) line)))
   \<and> visualColumn line column =
       int (length (take (nat (column - 1)) line)) +
       3 * int (count_list (take (nat (column - 1)) line) TAB)
   \<and> caretLine line column len ! nat (visualColumn line column) = CHR ''^''
   \<and> (\<forall>j < nat (visualColumn line column). caretLine line column len ! j = CHR '' '')
   \<and> (nat (column - 1) < length line \<and> line ! nat (column - 1) \<noteq> TAB \<longrightarrow>
        renderSourceLine line ! nat (visualColumn line column) = line ! nat (column - 1))"
proof -
  have "renderSourceLine line =
       renderSourceLine (take (nat (column - 1)) line) @
       renderSourceLine (drop (nat (column - 1)) line)"
    by (simp flip: renderSourceLine_append)
  moreover have "visualColumn line column =
       int (length (take (nat (column - 1)) line)) +
       3 * int (count_list (take (nat (column - 1)) line) TAB)"
    unfolding visualColumn_eq length_renderSourceLine by simp
  ultimately show ?thesis
    using renderSourceLine_concat visualColumn_eq caretLine_caret caretLine_spaces
      rendered_at_visualColumn by blast
qed

theorem tabs_render_as_four_spaces_and_caret_aligns_witness:
  "renderSourceLine (TAB # ''a = 1'') = ''    a = 1''
   \<and> visualColumn (TAB # ''a = 1'') 4 = 6
   \<and> caretLine (TAB # ''a = 1'') 4 1 = ''      ^''
   \<and> renderSourceLine (TAB # ''a = 1'') ! 6 = CHR ''=''"
  using tabs_render_as_four_spaces_and_caret_aligns [of "TAB # ''a = 1''" 4 1]
  by (simp add: TAB_def visualColumn_def caretLine_def eval_nat_numeral)


section \<open>Claims about the parser, settled by evaluation\<close>

text \<open>
  C1. The claim: for a call statement with arguments the parser emits the code of the
  argument expressions before \<open>CAL\<close>. \<open>parseStatement\<close> emits \<open>CAL\<close> where it resolves the
  procedure name, before it reads the parenthesis; the argument code follows. For
  \<open>call q(7)\<close> the instruction \<open>CAL 0 1\<close> stands at address 5 and the argument's
  \<open>LIT 0 7\<close> at address 6, so the argument is evaluated after the callee has returned.
\<close>

theorem CAL_emitted_before_arguments:
  "compile 10 tokens_call_with_argument =
     Returns (True,
       [Instruction Op_JMP 0 4, Instruction Op_JMP 0 2, Instruction Op_INT 0 4,
        Instruction Op_OPR 0 0, Instruction Op_INT 0 3, Instruction Op_CAL 0 1,
        Instruction Op_LIT 0 7, Instruction Op_OPR 0 0])"
  by code_simp

text \<open>
  C2. The claim: \<open>parse()\<close> returns normally on every token sequence, also on one with
  an \<open>INTEGER\<close> token whose lexeme exceeds the 32-bit range. \<open>parseFactor\<close> and
  \<open>parseCondecl\<close> call \<open>std::stoi\<close> on the lexeme with no handler, and \<open>std::stoi\<close>
  throws \<open>std::out_of_range\<close>: the exception leaves \<open>parse()\<close>.
\<close>

theorem stoi_exception_escapes_parse:
  "parse 10 tokens_write_large_literal = Throws stoi_out_of_range
   \<and> parse 10 tokens_const_large_literal = Throws stoi_out_of_range"
  by code_simp

text \<open>
  C7. The claim: no scope ever holds two entries with the same name, procedure headers
  with parameter lists included. \<open>parseProc\<close> adds every parameter without
  \<open>lookupCurrent\<close>: after the header \<open>procedure q(a, a);\<close> the scope of \<open>q\<close> holds two
  variables named \<open>a\<close> (at addresses 3 and 4), no error is reported, and the program
  compiles with a frame of five words for \<open>q\<close>.
\<close>

theorem duplicate_parameters_accepted:
  "map_outcome (\<lambda>s. (scopes (symbolTable s), hasErrorFlag s))
     (parseProc_head 10
        (emitP Op_JMP 0 0 ((ParserWithCodegen_new tokens_duplicate_parameter)\<lparr>position := 3\<rparr>)))
   = Returns
       ([[Symbol ''q'' Sym_PROCEDURE 0 1],
         [Symbol ''a'' Sym_VAR 1 3, Symbol ''a'' Sym_VAR 1 4]], False)
   \<and> compile 10 tokens_duplicate_parameter =
     Returns (True,
       [Instruction Op_JMP 0 6, Instruction Op_JMP 0 2, Instruction Op_INT 0 5,
        Instruction Op_LIT 0 1, Instruction Op_STO 0 3, Instruction Op_OPR 0 0,
        Instruction Op_INT 0 3, Instruction Op_OPR 0 0])"
  by code_simp


end
